theory Spec2Isabelle
  imports Complex_Main "HOL-Library.Sublist"
begin

section \<open>Conventions\<close>

text \<open>
  The backend is Python. Python floats are modelled by exact rationals (\<open>rat\<close>), Python
  strings by \<open>string\<close> with one \<open>char\<close> per code point (code points below 256; the two
  emoji of the prompt template are written as their UTF-8 bytes), dictionaries with a fixed
  set of keys by records, dictionaries returned as JSON-like results by maps from key names
  to values, and every \<open>raise\<close> by the left injection of a sum type. The external
  services (embedding, vector search, text generation, the database session, the clock) are
  fields of a record of oracles, so that every outcome they can have is an input of the
  model.
\<close>

section \<open>Exceptions\<close>

text \<open>
  Two distinct classes are both called \<open>ValidationError\<close> in the source:
  \<open>app.utils.validators.ValidationError\<close> (a direct subclass of \<open>Exception\<close>) and
  \<open>app.utils.exceptions.ValidationError\<close> (a subclass of \<open>ChatbotException\<close>).
  \<open>SQLAlchemyError\<close> stands for the database layer's exception class and its subclasses,
  \<open>HTTPException\<close> carries the status code and the detail.
\<close>

datatype exn =
    ValidatorsValidationError string
  | ExceptionsValidationError string
  | QdrantUnavailableError string
  | GeminiAPIError string
  | DatabaseError string
  | SQLAlchemyError string
  | UnboundLocalError string
  | TypeError string
  | PydanticValidationError string
  | HTTPException nat string
  | OtherException string

fun is_SQLAlchemyError :: "exn \<Rightarrow> bool" where
  "is_SQLAlchemyError (SQLAlchemyError m) = True"
| "is_SQLAlchemyError e = False"

section \<open>Constants (app/core/constants.py)\<close>

definition MAX_QUERY_LENGTH :: nat where "MAX_QUERY_LENGTH = 2000"
definition MIN_QUERY_LENGTH :: nat where "MIN_QUERY_LENGTH = 5"
definition MAX_CONTEXT_LENGTH :: nat where "MAX_CONTEXT_LENGTH = 4000"
definition MAX_RETRIEVED_CHUNKS :: nat where "MAX_RETRIEVED_CHUNKS = 5"
definition MIN_CONFIDENCE_SCORE :: rat where "MIN_CONFIDENCE_SCORE = 3 / 10"

definition newline :: string where "newline = [CHR 0x0A]"

definition SESSION_ID_PATTERN :: string where
  \<open>SESSION_ID_PATTERN = ''^[a-zA-Z0-9'' @ [CHR 0x5C] @ ''-_]{10,50}$''\<close>

definition RAG_CONSTRAINT_PROMPT :: string where
  \<open>RAG_CONSTRAINT_PROMPT =
     ''You are a helpful assistant for the Physical AI & Humanoid Robotics course.'' @ newline @
     ''Answer ONLY using information provided in the course materials below.'' @ newline @
     ''If the user asks about something not covered in the course materials, respond with:'' @ newline @
     ''"I don't have information about this in the course material. Please ask about topics covered in the course."'' @ newline @
     ''Do not use any external knowledge or information outside the provided context.''\<close>

section \<open>Validators (app/utils/validators.py)\<close>

text \<open>\<open>str.isspace\<close> on the code points below 256, and \<open>str.strip()\<close>.\<close>

definition py_isspace :: "char \<Rightarrow> bool" where
  "py_isspace c =
     (let n = (of_char c :: nat)
      in (9 \<le> n \<and> n \<le> 13) \<or> (28 \<le> n \<and> n \<le> 32) \<or> n = 133 \<or> n = 160)"

definition py_strip :: "string \<Rightarrow> string" where
  "py_strip s = rev (dropWhile py_isspace (rev (dropWhile py_isspace s)))"

definition validate_query_length :: "string \<Rightarrow> exn + unit" where
  "validate_query_length query =
     (let len = length (py_strip query)
      in if len < MIN_QUERY_LENGTH
         then Inl (ValidatorsValidationError ''Query too short. Minimum length is 5 characters.'')
         else if len > MAX_QUERY_LENGTH
         then Inl (ValidatorsValidationError ''Query too long. Maximum length is 2000 characters.'')
         else Inr ())"

text \<open>
  \<open>re.match(SESSION_ID_PATTERN, session_id)\<close> with Python's semantics of the pattern
  \<^verbatim>\<open>^[a-zA-Z0-9\-_]{10,50}$\<close>: \<open>re.match\<close> starts at position 0, where \<open>^\<close> holds; the
  counted character class is tried greedily with backtracking (\<open>match_repeat\<close> lists the
  remainders of the input after each admissible number of repetitions, longest first);
  without the MULTILINE flag \<open>$\<close> holds at the end of the string and also just before a
  newline that is the last character of the string (\<open>match_dollar\<close>). \<open>re.match\<close> does not
  require the match to reach the end of the input.
\<close>

definition session_id_char :: "char \<Rightarrow> bool" where
  "session_id_char c =
     (let n = (of_char c :: nat)
      in (97 \<le> n \<and> n \<le> 122) \<or> (65 \<le> n \<and> n \<le> 90) \<or> (48 \<le> n \<and> n \<le> 57)
         \<or> c = CHR ''-'' \<or> c = CHR ''_'')"

fun match_repeat :: "(char \<Rightarrow> bool) \<Rightarrow> nat \<Rightarrow> nat \<Rightarrow> string \<Rightarrow> string list" where
  "match_repeat P lo hi [] = (if lo = 0 then [[]] else [])"
| "match_repeat P lo hi (c # cs) =
     (if 0 < hi \<and> P c then match_repeat P (lo - 1) (hi - 1) cs else [])
     @ (if lo = 0 then [c # cs] else [])"

definition match_dollar :: "string \<Rightarrow> bool" where
  "match_dollar rest = (rest = [] \<or> rest = [CHR 0x0A])"

definition re_match_SESSION_ID_PATTERN :: "string \<Rightarrow> bool" where
  "re_match_SESSION_ID_PATTERN s = list_ex match_dollar (match_repeat session_id_char 10 50 s)"

definition validate_session_id :: "string \<Rightarrow> exn + unit" where
  "validate_session_id session_id =
     (if \<not> re_match_SESSION_ID_PATTERN session_id
      then Inl (ValidatorsValidationError
                  (''Invalid session ID format. Must match pattern: '' @ SESSION_ID_PATTERN))
      else Inr ())"

definition validate_selected_context :: "string option \<Rightarrow> exn + unit" where
  "validate_selected_context context =
     (case context of
        None \<Rightarrow> Inr ()
      | Some c \<Rightarrow>
          if c \<noteq> [] \<and> length c > MAX_CONTEXT_LENGTH
          then Inl (ValidatorsValidationError
                      ''Selected context too long. Maximum length is 4000 characters.'')
          else Inr ())"

definition validate_query_input :: "string \<Rightarrow> string \<Rightarrow> string option \<Rightarrow> exn + unit" where
  "validate_query_input question session_id selected_context =
     (case validate_query_length question of
        Inl e \<Rightarrow> Inl e
      | Inr u \<Rightarrow>
          (case validate_session_id session_id of
             Inl e \<Rightarrow> Inl e
           | Inr u \<Rightarrow> validate_selected_context selected_context))"

text \<open>
  The words of the specification for the session id: a string of 10 to 50 characters, each
  an ASCII letter, a digit, a hyphen or an underscore, and nothing else.
\<close>

definition spec_session_id_ok :: "string \<Rightarrow> bool" where
  "spec_session_id_ok s = (10 \<le> length s \<and> length s \<le> 50 \<and> list_all session_id_char s)"

section \<open>Health aggregation (app/api/v1/health.py)\<close>

record HealthCheckResponse =
  status :: string
  services :: "(string \<times> string \<times> string) list"

text \<open>
  \<open>health_check\<close> takes the results of the three checks (\<open>check_qdrant_health\<close>,
  \<open>check_gemini_health\<close>, \<open>check_postgres_health\<close>), each a pair of a flag and a message.
\<close>

definition health_check ::
  "bool \<times> string \<Rightarrow> bool \<times> string \<Rightarrow> bool \<times> string \<Rightarrow> HealthCheckResponse" where
  "health_check qdrant gemini postgres =
     (let qdrant_healthy = fst qdrant; qdrant_msg = snd qdrant;
          gemini_healthy = fst gemini; gemini_msg = snd gemini;
          postgres_healthy = fst postgres; postgres_msg = snd postgres;
          all_healthy = (qdrant_healthy \<and> gemini_healthy \<and> postgres_healthy);
          some_degraded = (\<not> list_all id [qdrant_healthy, gemini_healthy, postgres_healthy]);
          status = (if all_healthy then ''healthy''
                    else if some_degraded then ''degraded''
                    else ''unhealthy'')
      in \<lparr>status = status,
          services =
            [(''qdrant'', if qdrant_healthy then ''up'' else ''down'', qdrant_msg),
             (''gemini'', if gemini_healthy then ''up'' else ''down'', gemini_msg),
             (''postgres'', if postgres_healthy then ''up'' else ''down'', postgres_msg)]\<rparr>)"

text \<open>The aggregation as the specification words it.\<close>

definition spec_health_status :: "bool \<Rightarrow> bool \<Rightarrow> bool \<Rightarrow> string" where
  "spec_health_status q g p =
     (if q \<and> g \<and> p then ''healthy''
      else if \<not> q \<and> \<not> g \<and> \<not> p then ''unhealthy''
      else ''degraded'')"

section \<open>Persistence (app/models/chat\_query.py, app/services/postgres\_service.py)\<close>

record SourceDict =
  "chapter" :: "int option"
  lesson :: "int option"
  "section" :: "string option"

text \<open>A row of the table \<open>chat_queries\<close>; \<open>timestamp\<close> is in seconds.\<close>

record ChatQuery =
  id :: "nat option"
  question :: string
  selected_context :: "string option"
  session_id :: string
  timestamp :: int
  response_text :: string
  source_chapters :: "SourceDict list option"
  confidence_score :: "rat option"
  query_duration_ms :: "rat option"
  retrieval_duration_ms :: "rat option"
  generation_duration_ms :: "rat option"

text \<open>
  The decorator \<open>retry_on_connection_error(max_retries, initial_delay, backoff_factor)\<close>.
  The wrapped coroutine is effectful, so \<open>func k\<close> is the outcome of its call number \<open>k\<close>
  (counted from 0); the loop calls it once per iteration. The result is the list of the
  delays passed to \<open>asyncio.sleep\<close>, in order, and the outcome of the wrapper.
  \<open>retry_loop\<close> is the \<open>for attempt in range(max_retries + 1)\<close> loop, entered at
  \<open>attempt\<close> with the current \<open>delay\<close> and \<open>last_exception\<close>; the statement after the
  loop raises \<open>last_exception\<close>, which is a \<open>TypeError\<close> while that is still \<open>None\<close>.
\<close>

function retry_loop ::
  "nat \<Rightarrow> rat \<Rightarrow> (nat \<Rightarrow> exn + 'a) \<Rightarrow> nat \<Rightarrow> rat \<Rightarrow> exn option \<Rightarrow> rat list
     \<Rightarrow> rat list \<times> (exn + 'a)" where
  "retry_loop max_retries backoff_factor func attempt delay last_exception slept =
     (if attempt < max_retries + 1 then
        (case func attempt of
           Inr v \<Rightarrow> (slept, Inr v)
         | Inl e \<Rightarrow>
             if is_SQLAlchemyError e then
               (if attempt = max_retries then (slept, Inl e)
                else retry_loop max_retries backoff_factor func (attempt + 1)
                       (delay * backoff_factor) (Some e) (slept @ [delay]))
             else (slept, Inl e))
      else
        (slept, case last_exception of
                  Some e \<Rightarrow> Inl e
                | None \<Rightarrow> Inl (TypeError ''exceptions must derive from BaseException'')))"
  by pat_completeness auto
termination
  by (relation "measure (\<lambda>(m, b, f, a, d, l, s). m + 1 - a)") auto

declare retry_loop.simps [simp del]

definition retry_on_connection_error ::
  "nat \<Rightarrow> rat \<Rightarrow> rat \<Rightarrow> (nat \<Rightarrow> exn + 'a) \<Rightarrow> rat list \<times> (exn + 'a)" where
  "retry_on_connection_error max_retries initial_delay backoff_factor func =
     retry_loop max_retries backoff_factor func 0 initial_delay None []"

text \<open>
  The database session: \<open>session_commit k\<close> is the outcome of \<open>add\<close>, \<open>commit\<close> and
  \<open>refresh\<close> in call number \<open>k\<close> of \<open>save_query\<close>'s body, the generated id or the exception
  raised. The body turns a database-layer error into \<open>DatabaseError\<close> itself, inside the
  decorator.
\<close>

definition save_query_body ::
  "(nat \<Rightarrow> exn + nat) \<Rightarrow> int \<Rightarrow> string \<Rightarrow> string \<Rightarrow> string \<Rightarrow> SourceDict list option \<Rightarrow> rat
     \<Rightarrow> string option \<Rightarrow> rat option \<Rightarrow> rat option \<Rightarrow> rat option \<Rightarrow> nat \<Rightarrow> exn + ChatQuery" where
  "save_query_body =
     (\<lambda>session_commit utcnow question response_text session_id source_chapters
        confidence_score selected_context query_duration_ms retrieval_duration_ms
        generation_duration_ms k.
      let chat_query =
            \<lparr>id = None, question = question, selected_context = selected_context,
             session_id = session_id, timestamp = utcnow, response_text = response_text,
             source_chapters = source_chapters, confidence_score = Some confidence_score,
             query_duration_ms = query_duration_ms,
             retrieval_duration_ms = retrieval_duration_ms,
             generation_duration_ms = generation_duration_ms\<rparr>
      in case session_commit k of
           Inr new_id \<Rightarrow> Inr (chat_query\<lparr>id := Some new_id\<rparr>)
         | Inl (SQLAlchemyError m) \<Rightarrow> Inl (DatabaseError (''Failed to save query: '' @ m))
         | Inl e \<Rightarrow> Inl e)"

definition save_query ::
  "(nat \<Rightarrow> exn + nat) \<Rightarrow> int \<Rightarrow> string \<Rightarrow> string \<Rightarrow> string \<Rightarrow> SourceDict list option \<Rightarrow> rat
     \<Rightarrow> string option \<Rightarrow> rat option \<Rightarrow> rat option \<Rightarrow> rat option
     \<Rightarrow> rat list \<times> (exn + ChatQuery)" where
  "save_query =
     (\<lambda>session_commit utcnow question response_text session_id source_chapters
        confidence_score selected_context query_duration_ms retrieval_duration_ms
        generation_duration_ms.
      retry_on_connection_error 3 (1 / 10) 2
        (save_query_body session_commit utcnow question response_text session_id
           source_chapters confidence_score selected_context query_duration_ms
           retrieval_duration_ms generation_duration_ms))"

text \<open>
  Python truthiness of a nullable float column: \<open>None\<close> and \<open>0.0\<close> are false. The list
  comprehension \<open>[q.f for q in queries if q.f]\<close> keeps the truthy values.
\<close>

fun truthy :: "rat option \<Rightarrow> bool" where
  "truthy None = False"
| "truthy (Some v) = (v \<noteq> 0)"

definition truthy_values :: "('q \<Rightarrow> rat option) \<Rightarrow> 'q list \<Rightarrow> rat list" where
  "truthy_values f queries = map (\<lambda>q. the (f q)) (filter (\<lambda>q. truthy (f q)) queries)"

text \<open>
  \<open>get_analytics\<close>: \<open>select_result\<close> is the outcome of reading the table (its rows, or the
  exception of \<open>session.execute\<close>); the \<open>where\<close> clause keeps the rows with
  \<open>timestamp >= cutoff\<close>, with \<open>days_back\<close> days of 86400 seconds. The result is the
  dictionary returned.
\<close>

definition rows_since :: "int \<Rightarrow> nat \<Rightarrow> ChatQuery list \<Rightarrow> ChatQuery list" where
  "rows_since utcnow days_back table =
     filter (\<lambda>q. utcnow - int days_back * 86400 \<le> timestamp q) table"

definition get_analytics ::
  "exn + ChatQuery list \<Rightarrow> int \<Rightarrow> nat \<Rightarrow> exn + (string \<rightharpoonup> rat)" where
  "get_analytics select_result utcnow days_back =
     (case select_result of
        Inl (SQLAlchemyError m) \<Rightarrow> Inr Map.empty
      | Inl e \<Rightarrow> Inl e
      | Inr table \<Rightarrow>
          (let queries = rows_since utcnow days_back table
           in if queries = [] then
                Inr [''query_count'' \<mapsto> 0, ''avg_confidence'' \<mapsto> 0,
                     ''avg_response_time_ms'' \<mapsto> 0, ''unique_sessions'' \<mapsto> 0]
              else
                (let confidences = truthy_values confidence_score queries;
                     durations = truthy_values query_duration_ms queries;
                     sessions = set (map session_id queries)
                 in Inr [''query_count'' \<mapsto> of_nat (length queries),
                         ''avg_confidence'' \<mapsto>
                            (if confidences \<noteq> []
                             then sum_list confidences / of_nat (length confidences) else 0),
                         ''avg_response_time_ms'' \<mapsto>
                            (if durations \<noteq> []
                             then sum_list durations / of_nat (length durations) else 0),
                         ''unique_sessions'' \<mapsto> of_nat (card sessions),
                         ''period_days'' \<mapsto> of_nat days_back])))"

text \<open>Reading a key of a returned dictionary, \<open>result[key]\<close>.\<close>

definition dict_get :: "exn + (string \<rightharpoonup> rat) \<Rightarrow> string \<Rightarrow> rat option" where
  "dict_get result key = (case result of Inl e \<Rightarrow> None | Inr d \<Rightarrow> d key)"

text \<open>
  The words of the specification for the two averages: the mean of the non-null values,
  and 0 when there is none.
\<close>

definition non_null_values :: "('q \<Rightarrow> rat option) \<Rightarrow> 'q list \<Rightarrow> rat list" where
  "non_null_values f queries = map (\<lambda>q. the (f q)) (filter (\<lambda>q. f q \<noteq> None) queries)"

definition mean :: "rat list \<Rightarrow> rat" where
  "mean xs = (if xs = [] then 0 else sum_list xs / of_nat (length xs))"

section \<open>Analytics (app/services/analytics\_service.py)\<close>

text \<open>The local function \<open>percentile(data, p)\<close> of \<open>get_performance_metrics\<close>.\<close>

definition percentile :: "rat list \<Rightarrow> nat \<Rightarrow> rat" where
  "percentile data p =
     (if data = [] then 0
      else (let sorted_data = sort data;
                idx = nat \<lfloor>(of_nat (length sorted_data * p) :: rat) / 100\<rfloor>
            in sorted_data ! min idx (length sorted_data - 1)))"

definition empty_metrics :: "nat \<Rightarrow> (string \<rightharpoonup> rat)" where
  "empty_metrics days_back =
     [''query_count'' \<mapsto> 0, ''period_days'' \<mapsto> of_nat days_back, ''avg_confidence'' \<mapsto> 0,
      ''min_confidence'' \<mapsto> 0, ''max_confidence'' \<mapsto> 0, ''avg_response_time_ms'' \<mapsto> 0,
      ''p95_response_time_ms'' \<mapsto> 0, ''avg_retrieval_time_ms'' \<mapsto> 0,
      ''avg_generation_time_ms'' \<mapsto> 0, ''unique_sessions'' \<mapsto> 0]"

text \<open>Python's \<open>min\<close> and \<open>max\<close> of a non-empty list.\<close>

fun py_min :: "rat list \<Rightarrow> rat" where
  "py_min [] = 0"
| "py_min (x # xs) = fold min xs x"

fun py_max :: "rat list \<Rightarrow> rat" where
  "py_max [] = 0"
| "py_max (x # xs) = fold max xs x"

definition get_performance_metrics ::
  "exn + ChatQuery list \<Rightarrow> int \<Rightarrow> nat \<Rightarrow> exn + (string \<rightharpoonup> rat)" where
  "get_performance_metrics select_result utcnow days_back =
     (case select_result of
        Inl (SQLAlchemyError m) \<Rightarrow> Inr (empty_metrics days_back)
      | Inl e \<Rightarrow> Inl e
      | Inr table \<Rightarrow>
          (let queries = rows_since utcnow days_back table
           in if queries = [] then Inr (empty_metrics days_back)
              else
                (let query_count = length queries;
                     confidences = truthy_values confidence_score queries;
                     durations = truthy_values query_duration_ms queries;
                     retrieval_times = truthy_values retrieval_duration_ms queries;
                     generation_times = truthy_values generation_duration_ms queries
                 in Inr [''query_count'' \<mapsto> of_nat query_count,
                         ''period_days'' \<mapsto> of_nat days_back,
                         ''avg_confidence'' \<mapsto>
                            (if confidences \<noteq> []
                             then sum_list confidences / of_nat (length confidences) else 0),
                         ''min_confidence'' \<mapsto>
                            (if confidences \<noteq> [] then py_min confidences else 0),
                         ''max_confidence'' \<mapsto>
                            (if confidences \<noteq> [] then py_max confidences else 1),
                         ''avg_response_time_ms'' \<mapsto>
                            (if durations \<noteq> []
                             then sum_list durations / of_nat (length durations) else 0),
                         ''p95_response_time_ms'' \<mapsto>
                            (if durations \<noteq> [] then percentile durations 95 else 0),
                         ''avg_retrieval_time_ms'' \<mapsto>
                            (if retrieval_times \<noteq> []
                             then sum_list retrieval_times / of_nat (length retrieval_times)
                             else 0),
                         ''avg_generation_time_ms'' \<mapsto>
                            (if generation_times \<noteq> []
                             then sum_list generation_times / of_nat (length generation_times)
                             else 0),
                         ''unique_sessions'' \<mapsto>
                            of_nat (card (set (map session_id queries)))])))"

section \<open>Metrics collector (app/core/metrics.py)\<close>

text \<open>
  \<open>get_summary_stats\<close> reads the list observed under the key built from the metric's
  name and labels in the dictionary \<open>_summaries\<close>. \<open>int(0.5 * n)\<close> truncates the
  product, here the exact one.
\<close>

definition get_summary_stats :: "(string \<rightharpoonup> rat list) \<Rightarrow> string \<Rightarrow> (string \<rightharpoonup> rat)" where
  "get_summary_stats summaries key =
     (let values = (case summaries key of None \<Rightarrow> [] | Some vs \<Rightarrow> vs)
      in if values = [] then
           [''count'' \<mapsto> 0, ''sum'' \<mapsto> 0, ''avg'' \<mapsto> 0, ''min'' \<mapsto> 0, ''max'' \<mapsto> 0,
            ''p50'' \<mapsto> 0, ''p95'' \<mapsto> 0, ''p99'' \<mapsto> 0]
         else
           (let sorted_values = sort values;
                n = length sorted_values;
                p50_idx = nat \<lfloor>(5 / 10 :: rat) * of_nat n\<rfloor>;
                p95_idx = nat \<lfloor>(95 / 100 :: rat) * of_nat n\<rfloor>;
                p99_idx = nat \<lfloor>(99 / 100 :: rat) * of_nat n\<rfloor>
            in [''count'' \<mapsto> of_nat n,
                ''sum'' \<mapsto> sum_list sorted_values,
                ''avg'' \<mapsto> (if n > 0 then sum_list sorted_values / of_nat n else 0),
                ''min'' \<mapsto> (if n > 0 then sorted_values ! 0 else 0),
                ''max'' \<mapsto> (if n > 0 then sorted_values ! (n - 1) else 0),
                ''p50'' \<mapsto> (if p50_idx < n then sorted_values ! p50_idx else 0),
                ''p95'' \<mapsto> (if p95_idx < n then sorted_values ! p95_idx else 0),
                ''p99'' \<mapsto> (if p99_idx < n then sorted_values ! p99_idx else 0)]))"

text \<open>The index of the specification: \<open>floor(percentile/100 \<times> n)\<close>.\<close>

definition nearest_rank_index :: "nat \<Rightarrow> nat \<Rightarrow> nat" where
  "nearest_rank_index pct n = nat \<lfloor>(of_nat pct / 100 :: rat) * of_nat n\<rfloor>"

section \<open>The RAG orchestrator (app/services/rag\_service.py)\<close>

text \<open>A retrieved chunk; \<open>similarity_score\<close> is \<open>None\<close> when the key is absent.\<close>

record chunk =
  similarity_score :: "rat option"
  "text" :: string
  "chapter" :: "int option"
  lesson :: "int option"
  "section" :: "string option"

record RagResult =
  response_text :: string
  source_references :: "SourceDict list"
  confidence_score :: rat
  timestamp :: "string option"

text \<open>
  The oracles of one request: the outcome of \<open>init_services\<close>, of the embedding, search
  and generation calls, of the database session (see \<open>save_query_body\<close>), the clock
  readings and the three durations measured with \<open>time.time()\<close>, in seconds.
\<close>

record backend =
  init_services_error :: "exn option"
  generate_embedding :: "string \<Rightarrow> exn + rat list"
  search_similar_chunks :: "rat list \<Rightarrow> nat \<Rightarrow> exn + chunk list"
  generate_response_for_query :: "string \<Rightarrow> string \<Rightarrow> exn + string"
  session_commit :: "nat \<Rightarrow> exn + nat"
  utcnow :: int
  utcnow_isoformat :: string
  total_duration :: rat
  retrieval_duration :: rat
  generation_duration :: rat

datatype call =
    Call_generate_embedding
  | Call_search_similar_chunks
  | Call_generate_response_for_query
  | Call_save_query

fun join :: "string \<Rightarrow> string list \<Rightarrow> string" where
  "join sep [] = []"
| "join sep [x] = x"
| "join sep (x # y # ys) = x @ sep @ join sep (y # ys)"

definition build_augmented_prompt :: "string \<Rightarrow> chunk list \<Rightarrow> string option \<Rightarrow> string" where
  "build_augmented_prompt =
     (\<lambda>question chunks selected_context.
      let context_text = join (newline @ newline) (map chunk.text chunks);
          context_text =
            (case selected_context of
               None \<Rightarrow> context_text
             | Some sc \<Rightarrow>
                 if sc = [] then context_text
                 else [CHR 0xF0, CHR 0x9F, CHR 0x94, CHR 0x8D]
                      @ '' SELECTED PASSAGE (user-highlighted text):'' @ newline
                      @ sc @ newline @ newline
                      @ [CHR 0xF0, CHR 0x9F, CHR 0x93, CHR 0x9A]
                      @ '' ADDITIONAL COURSE MATERIAL:'' @ newline @ context_text)
      in RAG_CONSTRAINT_PROMPT @ newline @ newline
         @ ''Course Material Context:'' @ newline @ context_text @ newline @ newline
         @ ''User Question: '' @ question @ newline @ newline @ ''Answer:'')"

definition extract_source_references :: "chunk list \<Rightarrow> SourceDict list" where
  "extract_source_references chunks =
     map (\<lambda>c. \<lparr>SourceDict.chapter = chunk.chapter c, SourceDict.lesson = chunk.lesson c,
               SourceDict.section = chunk.section c\<rparr>) chunks"

definition calculate_confidence_score :: "chunk list \<Rightarrow> string \<Rightarrow> rat" where
  "calculate_confidence_score chunks response =
     (if chunks = [] then 0
      else
        (let avg_similarity =
               sum_list (map (\<lambda>c. case similarity_score c of None \<Rightarrow> 0 | Some v \<Rightarrow> v) chunks)
               / of_nat (length chunks);
             response_factor = min (of_nat (length response) / 200) 1;
             confidence = (avg_similarity * (7 / 10)) + (response_factor * (3 / 10));
             confidence = max MIN_CONFIDENCE_SCORE (min confidence 1)
         in confidence))"

text \<open>
  The words of the specification for the confidence:
  \<open>clamp(0.3, 1.0, 0.7 \<times> avg_similarity + 0.3 \<times> min(len(response_text)/200, 1.0))\<close>.
\<close>

definition clamp :: "rat \<Rightarrow> rat \<Rightarrow> rat \<Rightarrow> rat" where
  "clamp lo hi x = (if x < lo then lo else if hi < x then hi else x)"

definition similarity_scores :: "chunk list \<Rightarrow> rat list" where
  "similarity_scores chunks =
     map (\<lambda>c. case similarity_score c of None \<Rightarrow> 0 | Some v \<Rightarrow> v) chunks"

definition spec_confidence :: "chunk list \<Rightarrow> string \<Rightarrow> rat" where
  "spec_confidence chunks response =
     clamp (3 / 10) 1
       (7 / 10 * mean (similarity_scores chunks)
        + 3 / 10 * min (of_nat (length response) / 200) 1)"

text \<open>
  \<open>process_query\<close> returns the external calls it made, in order, and its outcome. The
  three metric decorators around it re-raise what it raises and return what it returns.
\<close>

definition process_query ::
  "backend \<Rightarrow> string \<Rightarrow> string \<Rightarrow> string option \<Rightarrow> call list \<times> (exn + RagResult)" where
  "process_query =
     (\<lambda>env question session_id selected_context.
      case validate_query_input question session_id selected_context of
        Inl e \<Rightarrow> ([], Inl e)
      | Inr u \<Rightarrow>
      (case generate_embedding env question of
         Inl e \<Rightarrow> ([Call_generate_embedding], Inl e)
       | Inr query_embedding \<Rightarrow>
       (case search_similar_chunks env query_embedding MAX_RETRIEVED_CHUNKS of
          Inl e \<Rightarrow> ([Call_generate_embedding, Call_search_similar_chunks], Inl e)
        | Inr retrieved_chunks \<Rightarrow>
            if retrieved_chunks = [] then
              ([Call_generate_embedding, Call_search_similar_chunks],
               Inr \<lparr>response_text =
                      ''I couldn't find relevant information about your question in the course materials.'',
                    source_references = [],
                    confidence_score = 0,
                    timestamp = None\<rparr>)
            else
              (let augmented_prompt =
                     build_augmented_prompt question retrieved_chunks selected_context
               in case generate_response_for_query env question augmented_prompt of
                    Inl e \<Rightarrow>
                      ([Call_generate_embedding, Call_search_similar_chunks,
                        Call_generate_response_for_query], Inl e)
                  | Inr generated \<Rightarrow>
                      (let response_text = generated;
                           source_references = extract_source_references retrieved_chunks;
                           confidence_score =
                             calculate_confidence_score retrieved_chunks response_text
                       in case snd (save_query (session_commit env) (utcnow env) question
                                      response_text session_id (Some source_references)
                                      confidence_score selected_context
                                      (Some (total_duration env * 1000))
                                      (Some (retrieval_duration env * 1000))
                                      (Some (generation_duration env * 1000))) of
                            Inl e \<Rightarrow>
                              ([Call_generate_embedding, Call_search_similar_chunks,
                                Call_generate_response_for_query, Call_save_query], Inl e)
                          | Inr saved \<Rightarrow>
                              ([Call_generate_embedding, Call_search_similar_chunks,
                                Call_generate_response_for_query, Call_save_query],
                               Inr \<lparr>response_text = response_text,
                                    source_references = source_references,
                                    confidence_score = confidence_score,
                                    timestamp = None\<rparr>))))))"

section \<open>Request and response schemas (app/models/schemas.py)\<close>

record ChatQueryRequest =
  question :: string
  selected_context :: "string option"
  session_id :: string

record SourceReference =
  "chapter" :: "int option"
  lesson :: "int option"
  "section" :: "string option"
  context_grounded :: bool

record ChatResponseSchema =
  response_text :: string
  source_references :: "SourceReference list"
  confidence_score :: rat
  timestamp :: string

text \<open>
  The validation of a request body by the schema \<open>ChatQueryRequest\<close>, before the handler
  runs: the length bounds of the fields, then the two field validators.
\<close>

definition ChatQueryRequest_validate ::
  "string \<Rightarrow> string option \<Rightarrow> string \<Rightarrow> exn + ChatQueryRequest" where
  "ChatQueryRequest_validate =
     (\<lambda>question selected_context session_id.
      if length question < 5 \<or> length question > 2000
      then Inl (PydanticValidationError ''question'')
      else if py_strip question = []
      then Inl (PydanticValidationError ''Question cannot be empty or whitespace'')
      else if (case selected_context of None \<Rightarrow> False | Some c \<Rightarrow> length c > 4000)
      then Inl (PydanticValidationError ''selected_context'')
      else if session_id = [] \<or> length session_id < 5
      then Inl (PydanticValidationError ''Session ID must be at least 5 characters'')
      else Inr \<lparr>question = py_strip question, selected_context = selected_context,
                session_id = session_id\<rparr>)"

definition ChatResponseSchema_init ::
  "string \<Rightarrow> SourceDict list \<Rightarrow> rat \<Rightarrow> string \<Rightarrow> exn + ChatResponseSchema" where
  "ChatResponseSchema_init =
     (\<lambda>response_text source_references confidence_score timestamp.
      if confidence_score < 0 \<or> 1 < confidence_score
      then Inl (PydanticValidationError ''confidence_score'')
      else Inr \<lparr>response_text = response_text,
                source_references =
                  map (\<lambda>d. \<lparr>chapter = SourceDict.chapter d, lesson = SourceDict.lesson d,
                            section = SourceDict.section d, context_grounded = False\<rparr>)
                    source_references,
                confidence_score = confidence_score,
                timestamp = timestamp\<rparr>)"

section \<open>The query endpoint (app/api/v1/query.py)\<close>

text \<open>
  \<open>query_chatbot\<close>: the handler's \<open>except ValidationError\<close> names the class imported
  from \<open>app.utils.exceptions\<close>; the local variable \<open>rag_result\<close> is bound only when
  \<open>process_query\<close> returns. The result is the response (HTTP 200) or the \<open>HTTPException\<close>
  raised.
\<close>

definition query_chatbot :: "backend \<Rightarrow> ChatQueryRequest \<Rightarrow> exn + ChatResponseSchema" where
  "query_chatbot env query_request =
     (let outcome =
        (case init_services_error env of
           Some e \<Rightarrow> Inl e
         | None \<Rightarrow>
           (case (case validate_query_input (ChatQueryRequest.question query_request)
                         (ChatQueryRequest.session_id query_request)
                         (ChatQueryRequest.selected_context query_request) of
                    Inl (ExceptionsValidationError m) \<Rightarrow> Inl (HTTPException 400 m)
                  | Inl e \<Rightarrow> Inl e
                  | Inr u \<Rightarrow> Inr u) of
              Inl e \<Rightarrow> Inl e
            | Inr u \<Rightarrow>
              (case (case snd (process_query env (ChatQueryRequest.question query_request)
                                 (ChatQueryRequest.session_id query_request)
                                 (ChatQueryRequest.selected_context query_request)) of
                       Inl (QdrantUnavailableError m) \<Rightarrow> Inl (HTTPException 503 m)
                     | Inl (GeminiAPIError m) \<Rightarrow> Inl (HTTPException 502 m)
                     | Inl (DatabaseError m) \<Rightarrow> Inr None
                     | Inl e \<Rightarrow> Inl e
                     | Inr r \<Rightarrow> Inr (Some r)) of
                 Inl e \<Rightarrow> Inl e
               | Inr rag_result \<Rightarrow>
                   (case rag_result of
                      None \<Rightarrow>
                        Inl (UnboundLocalError
                               ''cannot access local variable 'rag_result' where it is not associated with a value'')
                    | Some r \<Rightarrow>
                        ChatResponseSchema_init (RagResult.response_text r)
                          (RagResult.source_references r) (RagResult.confidence_score r)
                          (utcnow_isoformat env)))))
      in case outcome of
           Inl (HTTPException c d) \<Rightarrow> Inl (HTTPException c d)
         | Inl e \<Rightarrow> Inl (HTTPException 500 ''An unexpected error occurred. Please try again.'')
         | Inr response \<Rightarrow> Inr response)"

definition http_status :: "exn + ChatResponseSchema \<Rightarrow> nat" where
  "http_status r = (case r of Inr response \<Rightarrow> 200 | Inl (HTTPException c d) \<Rightarrow> c | Inl e \<Rightarrow> 500)"

section \<open>Example inputs\<close>

definition example_chunk :: chunk where
  "example_chunk =
     \<lparr>similarity_score = Some (9 / 10), text = ''ZMP is the zero moment point.'',
      chapter = Some 3, lesson = Some 1, section = Some ''Balance''\<rparr>"

text \<open>A backend in which every service answers.\<close>

definition backend_up :: backend where
  "backend_up =
     \<lparr>init_services_error = None,
      generate_embedding = (\<lambda>q. Inr [1 / 10, 2 / 10]),
      search_similar_chunks = (\<lambda>emb limit. Inr [example_chunk]),
      generate_response_for_query = (\<lambda>q prompt. Inr ''The zero moment point.''),
      session_commit = (\<lambda>k. Inr 1),
      utcnow = 1700000000,
      utcnow_isoformat = ''2023-11-14T22:13:20'',
      total_duration = 3 / 2,
      retrieval_duration = 1 / 2,
      generation_duration = 1\<rparr>"

text \<open>The same backend with a database whose every commit fails.\<close>

definition backend_db_down :: backend where
  "backend_db_down = backend_up\<lparr>session_commit := (\<lambda>k. Inl (SQLAlchemyError ''connection refused''))\<rparr>"

text \<open>The same backend with a vector search that finds nothing.\<close>

definition backend_no_chunks :: backend where
  "backend_no_chunks = backend_up\<lparr>search_similar_chunks := (\<lambda>emb limit. Inr [])\<rparr>"

definition request_ok :: ChatQueryRequest where
  "request_ok = \<lparr>question = ''What is ZMP?'', selected_context = None, session_id = ''session-12345''\<rparr>"

definition request_bad_session :: ChatQueryRequest where
  "request_bad_session =
     \<lparr>question = ''What is ZMP?'', selected_context = None, session_id = ''invalid session id!''\<rparr>"

definition row :: "string \<Rightarrow> rat option \<Rightarrow> rat option \<Rightarrow> ChatQuery" where
  "row sid conf dur =
     \<lparr>id = Some 1, question = ''What is ZMP?'', selected_context = None, session_id = sid,
      timestamp = 1700000000, response_text = ''The zero moment point.'',
      source_chapters = None, confidence_score = conf, query_duration_ms = dur,
      retrieval_duration_ms = None, generation_duration_ms = None\<rparr>"

text \<open>Two stored rows, the first with confidence 0.0 and duration 0.0.\<close>

definition rows_with_zero :: "ChatQuery list" where
  "rows_with_zero = [row ''session-a'' (Some 0) (Some 0), row ''session-b'' (Some 1) (Some 300)]"

text \<open>Rows none of which has a nonzero confidence score.\<close>

definition rows_no_confidence :: "ChatQuery list" where
  "rows_no_confidence = [row ''session-a'' (Some 0) (Some 120), row ''session-b'' None None]"

section \<open>Validation helpers\<close>

lemma validate_query_input_bad_session:
  "validate_query_input ''What is ZMP?'' ''invalid session id!'' None =
     Inl (ValidatorsValidationError
            (''Invalid session ID format. Must match pattern: '' @ SESSION_ID_PATTERN))"
  by (simp add: validate_query_input_def validate_query_length_def py_strip_def py_isspace_def
      MIN_QUERY_LENGTH_def MAX_QUERY_LENGTH_def validate_session_id_def
      re_match_SESSION_ID_PATTERN_def session_id_char_def match_dollar_def)

lemma validate_query_input_ok:
  "validate_query_input ''What is ZMP?'' ''session-12345'' None = Inr ()"
  by (simp add: validate_query_input_def validate_query_length_def py_strip_def py_isspace_def
      MIN_QUERY_LENGTH_def MAX_QUERY_LENGTH_def validate_session_id_def
      re_match_SESSION_ID_PATTERN_def session_id_char_def match_dollar_def
      validate_selected_context_def)

text \<open>Every failure of \<open>validate_query_input\<close> is the validators module's own class.\<close>

lemma validate_query_input_raises:
  "validate_query_input q s c = Inl e \<Longrightarrow> \<exists>m. e = ValidatorsValidationError m"
  by (auto simp add: validate_query_input_def validate_query_length_def validate_session_id_def
      validate_selected_context_def Let_def split: sum.splits if_splits option.splits)

lemma request_bad_session_passes_schema:
  "ChatQueryRequest_validate ''What is ZMP?'' None ''invalid session id!'' = Inr request_bad_session"
  by (simp add: ChatQueryRequest_validate_def request_bad_session_def py_strip_def py_isspace_def)

section \<open>The query endpoint: status codes\<close>

text \<open>
  Failures of the pipeline in the vector search and in the generation are translated to
  503 and 502, with the message of the exception as detail.
\<close>

lemma query_chatbot_qdrant_503:
  assumes "init_services_error env = None"
    and "validate_query_input (ChatQueryRequest.question r) (ChatQueryRequest.session_id r)
           (ChatQueryRequest.selected_context r) = Inr ()"
    and "snd (process_query env (ChatQueryRequest.question r) (ChatQueryRequest.session_id r)
           (ChatQueryRequest.selected_context r)) = Inl (QdrantUnavailableError m)"
  shows "query_chatbot env r = Inl (HTTPException 503 m)"
  using assms by (simp add: query_chatbot_def)

lemma query_chatbot_gemini_502:
  assumes "init_services_error env = None"
    and "validate_query_input (ChatQueryRequest.question r) (ChatQueryRequest.session_id r)
           (ChatQueryRequest.selected_context r) = Inr ()"
    and "snd (process_query env (ChatQueryRequest.question r) (ChatQueryRequest.session_id r)
           (ChatQueryRequest.selected_context r)) = Inl (GeminiAPIError m)"
  shows "query_chatbot env r = Inl (HTTPException 502 m)"
  using assms by (simp add: query_chatbot_def)

text \<open>
  C1 (the code departs from the claim): a request that reaches the handler and fails
  \<open>validate_query_input\<close> is not answered with 400 and the validation message. The
  exception raised is \<open>app.utils.validators.ValidationError\<close>, the handler's 400 branch
  catches \<open>app.utils.exceptions.ValidationError\<close>, so the failure reaches the outermost
  \<open>except Exception\<close> and the answer is 500 with the generic detail.
\<close>

theorem query_chatbot_invalid_input_is_500:
  assumes "init_services_error env = None"
    and "validate_query_input (ChatQueryRequest.question r) (ChatQueryRequest.session_id r)
           (ChatQueryRequest.selected_context r) = Inl e"
  shows "query_chatbot env r =
           Inl (HTTPException 500 ''An unexpected error occurred. Please try again.'')"
proof -
  obtain m where "e = ValidatorsValidationError m"
    using validate_query_input_raises [OF assms(2)] by blast
  with assms show ?thesis by (simp add: query_chatbot_def)
qed

theorem query_chatbot_invalid_input_is_500_witness:
  "init_services_error backend_up = None
   \<and> ChatQueryRequest_validate ''What is ZMP?'' None ''invalid session id!''
       = Inr request_bad_session
   \<and> validate_query_input (ChatQueryRequest.question request_bad_session)
         (ChatQueryRequest.session_id request_bad_session)
         (ChatQueryRequest.selected_context request_bad_session)
       = Inl (ValidatorsValidationError
                (''Invalid session ID format. Must match pattern: '' @ SESSION_ID_PATTERN))
   \<and> http_status (query_chatbot backend_up request_bad_session) = 500"
proof -
  have a: "init_services_error backend_up = None"
    by (simp add: backend_up_def)
  have b: "validate_query_input (ChatQueryRequest.question request_bad_session)
             (ChatQueryRequest.session_id request_bad_session)
             (ChatQueryRequest.selected_context request_bad_session)
           = Inl (ValidatorsValidationError
                    (''Invalid session ID format. Must match pattern: '' @ SESSION_ID_PATTERN))"
    by (simp add: request_bad_session_def validate_query_input_bad_session)
  show ?thesis
    using a b request_bad_session_passes_schema query_chatbot_invalid_input_is_500 [OF a b]
    by (simp add: http_status_def)
qed

text \<open>
  The persistence stage: a commit that fails with a database-layer error makes
  \<open>save_query\<close> raise \<open>DatabaseError\<close> at once, and \<open>process_query\<close> raises it in turn.
\<close>

lemma save_query_commit_fails:
  "commit 0 = Inl (SQLAlchemyError m) \<Longrightarrow>
   save_query commit now q rt sid sc conf ctx d1 d2 d3 =
     ([], Inl (DatabaseError (''Failed to save query: '' @ m)))"
  by (simp add: save_query_def retry_on_connection_error_def save_query_body_def
      retry_loop.simps [of _ _ _ 0])

lemma process_query_db_down:
  "snd (process_query backend_db_down ''What is ZMP?'' ''session-12345'' None) =
     Inl (DatabaseError ''Failed to save query: connection refused'')"
  by (simp add: process_query_def validate_query_input_ok backend_db_down_def backend_up_def
      save_query_commit_fails)

text \<open>
  C2 (the code departs from the claim): when the pipeline raises \<open>DatabaseError\<close> in its
  persistence stage the handler catches it and goes on, but \<open>rag_result\<close> was never
  bound; building the response raises \<open>UnboundLocalError\<close>, which the outermost handler
  turns into 500. No 200 response is returned.
\<close>

theorem query_chatbot_database_error_is_500:
  assumes "init_services_error env = None"
    and "validate_query_input (ChatQueryRequest.question r) (ChatQueryRequest.session_id r)
           (ChatQueryRequest.selected_context r) = Inr ()"
    and "snd (process_query env (ChatQueryRequest.question r) (ChatQueryRequest.session_id r)
           (ChatQueryRequest.selected_context r)) = Inl (DatabaseError m)"
  shows "query_chatbot env r =
           Inl (HTTPException 500 ''An unexpected error occurred. Please try again.'')"
  using assms by (simp add: query_chatbot_def)

theorem query_chatbot_database_error_is_500_witness:
  "init_services_error backend_db_down = None
   \<and> snd (process_query backend_db_down (ChatQueryRequest.question request_ok)
           (ChatQueryRequest.session_id request_ok) (ChatQueryRequest.selected_context request_ok))
       = Inl (DatabaseError ''Failed to save query: connection refused'')
   \<and> http_status (query_chatbot backend_db_down request_ok) = 500"
proof -
  have a: "init_services_error backend_db_down = None"
    by (simp add: backend_db_down_def backend_up_def)
  have b: "validate_query_input (ChatQueryRequest.question request_ok)
             (ChatQueryRequest.session_id request_ok)
             (ChatQueryRequest.selected_context request_ok) = Inr ()"
    by (simp add: request_ok_def validate_query_input_ok)
  have c: "snd (process_query backend_db_down (ChatQueryRequest.question request_ok)
             (ChatQueryRequest.session_id request_ok)
             (ChatQueryRequest.selected_context request_ok))
           = Inl (DatabaseError ''Failed to save query: connection refused'')"
    using process_query_db_down by (simp add: request_ok_def)
  have "query_chatbot backend_db_down request_ok =
          Inl (HTTPException 500 ''An unexpected error occurred. Please try again.'')"
    by (rule query_chatbot_database_error_is_500 [OF a b c])
  then show ?thesis using a c by (simp add: http_status_def)
qed

section \<open>Health aggregation\<close>

text \<open>Whenever at least one check succeeds the status is the one of the specification.\<close>

lemma health_check_not_all_down:
  "fst q \<or> fst g \<or> fst p \<Longrightarrow>
   status (health_check q g p) = spec_health_status (fst q) (fst g) (fst p)"
  by (auto simp add: health_check_def Let_def spec_health_status_def)

lemma health_check_never_unhealthy: "status (health_check q g p) \<noteq> ''unhealthy''"
  by (simp add: health_check_def Let_def)

text \<open>
  C3 (the code departs from the claim): when all three checks fail the reported status is
  "degraded", not "unhealthy". \<open>some_degraded\<close> is the negation of \<open>all_healthy\<close>, so the
  branch that assigns "unhealthy" is never taken.
\<close>

theorem health_check_all_down_is_degraded:
  "status (health_check (False, m1) (False, m2) (False, m3)) = ''degraded''
   \<and> spec_health_status False False False = ''unhealthy''"
  by (simp add: health_check_def spec_health_status_def)

section \<open>The orchestrator: no results\<close>

text \<open>
  C5: when the vector search returns no chunk, \<open>process_query\<close> returns the fixed answer
  whose text contains "couldn't find relevant information", with no source reference and
  confidence 0, and it has called neither the generation nor \<open>save_query\<close>.
\<close>

theorem process_query_no_chunks:
  assumes "validate_query_input q sid ctx = Inr ()"
    and "generate_embedding env q = Inr emb"
    and "search_similar_chunks env emb MAX_RETRIEVED_CHUNKS = Inr []"
  shows "\<exists>r. snd (process_query env q sid ctx) = Inr r
      \<and> sublist ''couldn't find relevant information'' (RagResult.response_text r)
      \<and> RagResult.source_references r = []
      \<and> RagResult.confidence_score r = 0
      \<and> Call_generate_response_for_query \<notin> set (fst (process_query env q sid ctx))
      \<and> Call_save_query \<notin> set (fst (process_query env q sid ctx))"
proof -
  have "sublist ''couldn't find relevant information''
          (''I '' @ ''couldn't find relevant information''
             @ '' about your question in the course materials.'')"
    unfolding sublist_def by blast
  then show ?thesis using assms by (simp add: process_query_def)
qed

theorem process_query_no_chunks_witness:
  "validate_query_input ''What is ZMP?'' ''session-12345'' None = Inr ()
   \<and> generate_embedding backend_no_chunks ''What is ZMP?'' = Inr [1 / 10, 2 / 10]
   \<and> search_similar_chunks backend_no_chunks [1 / 10, 2 / 10] MAX_RETRIEVED_CHUNKS = Inr []
   \<and> fst (process_query backend_no_chunks ''What is ZMP?'' ''session-12345'' None)
       = [Call_generate_embedding, Call_search_similar_chunks]
   \<and> RagResult.confidence_score
        (projr (snd (process_query backend_no_chunks ''What is ZMP?'' ''session-12345'' None)))
       = 0"
proof -
  have a: "generate_embedding backend_no_chunks ''What is ZMP?'' = Inr [1 / 10, 2 / 10]"
    by (simp add: backend_no_chunks_def backend_up_def)
  have b: "search_similar_chunks backend_no_chunks [1 / 10, 2 / 10] MAX_RETRIEVED_CHUNKS = Inr []"
    by (simp add: backend_no_chunks_def backend_up_def)
  from process_query_no_chunks [OF validate_query_input_ok a b] validate_query_input_ok a b
  show ?thesis by (auto simp add: process_query_def)
qed

section \<open>The orchestrator: confidence\<close>

text \<open>
  C4: for a non-empty list of chunks the confidence helper returns
  \<open>clamp(0.3, 1.0, 0.7 \<times> avg_similarity + 0.3 \<times> min(len(response)/200, 1.0))\<close>, with
  \<open>avg_similarity\<close> the mean of the chunks' similarity scores, so the score lies between
  0.3 and 1.0; for the empty list it returns 0.
\<close>

theorem calculate_confidence_score_spec:
  "(chunks \<noteq> [] \<longrightarrow>
      calculate_confidence_score chunks response = spec_confidence chunks response
      \<and> 3 / 10 \<le> calculate_confidence_score chunks response
      \<and> calculate_confidence_score chunks response \<le> 1)
   \<and> calculate_confidence_score [] response = 0"
  by (auto simp add: calculate_confidence_score_def spec_confidence_def clamp_def mean_def
      similarity_scores_def MIN_CONFIDENCE_SCORE_def Let_def max_def min_def algebra_simps)

theorem calculate_confidence_score_spec_witness:
  "[example_chunk] \<noteq> []
   \<and> calculate_confidence_score [example_chunk] ''The zero moment point.'' = 663 / 1000"
  using calculate_confidence_score_spec [of "[example_chunk]" "''The zero moment point.''"]
  by (simp add: spec_confidence_def clamp_def mean_def similarity_scores_def example_chunk_def)

section \<open>The retry decorator\<close>

text \<open>
  The loop entered at \<open>attempt = a\<close>: after \<open>k\<close> database-layer failures in a row, when
  call \<open>a + k\<close> is the last one allowed or is not a database-layer failure, the wrapper has
  slept \<open>k\<close> times, each delay the previous one times the backoff factor, and its outcome
  is the outcome of call \<open>a + k\<close>.
\<close>

lemma retry_loop_steps:
  assumes "a + k \<le> m"
    and "\<forall>i<k. \<exists>e. func (a + i) = Inl e \<and> is_SQLAlchemyError e"
    and "a + k = m \<or> \<not> (\<exists>e. func (a + k) = Inl e \<and> is_SQLAlchemyError e)"
  shows "retry_loop m b func a d le sl = (sl @ map (\<lambda>i. d * b ^ i) [0..<k], func (a + k))"
  using assms
proof (induction k arbitrary: a d le sl)
  case 0
  then show ?case
    by (subst retry_loop.simps) (auto split: sum.splits)
next
  case (Suc k)
  from Suc.prems(2) obtain e where e: "func a = Inl e" "is_SQLAlchemyError e"
    by force
  have lt: "a < m" using Suc.prems(1) by simp
  have IH: "retry_loop m b func (a + 1) (d * b) (Some e) (sl @ [d])
              = ((sl @ [d]) @ map (\<lambda>i. (d * b) * b ^ i) [0..<k], func ((a + 1) + k))"
  proof (rule Suc.IH)
    show "a + 1 + k \<le> m" using Suc.prems(1) by simp
    show "\<forall>i<k. \<exists>e. func (a + 1 + i) = Inl e \<and> is_SQLAlchemyError e"
      using Suc.prems(2) by (metis Suc_eq_plus1 Suc_less_eq add_Suc_shift)
    show "a + 1 + k = m \<or> \<not> (\<exists>e. func (a + 1 + k) = Inl e \<and> is_SQLAlchemyError e)"
      using Suc.prems(3) by simp
  qed
  have m: "map (\<lambda>i. d * b ^ i) [0..<Suc k] = d # map (\<lambda>i. (d * b) * b ^ i) [0..<k]"
    by (simp add: map_upt_Suc del: upt_Suc)
  show ?case
    by (subst retry_loop.simps) (use e lt IH m in \<open>simp del: upt_Suc\<close>)
qed

text \<open>
  C6: with the parameters of the decorator (3 retries, initial delay 0.1, factor 2), let
  call \<open>k \<le> 3\<close> be the first that is not a database-layer failure, or the fourth call
  (\<open>k = 3\<close>) when the first three all are. Then the wrapper makes the calls 0 to \<open>k\<close>, sleeps
  the first \<open>k\<close> of 0.1, 0.2, 0.4 seconds between them, and ends as call \<open>k\<close> does: with its
  result when it succeeds, with its database-layer error when it is the fourth call, with
  its other error, raised at once, otherwise.
\<close>

theorem retry_on_connection_error_spec:
  assumes "k \<le> 3"
    and "\<forall>i<k. \<exists>e. func i = Inl e \<and> is_SQLAlchemyError e"
    and "k = 3 \<or> \<not> (\<exists>e. func k = Inl e \<and> is_SQLAlchemyError e)"
  shows "retry_on_connection_error 3 (1 / 10) 2 func
           = (take k [1 / 10, 2 / 10, 4 / 10], func k)"
proof -
  have "retry_loop 3 2 func 0 (1 / 10) None []
          = ([] @ map (\<lambda>i. (1 / 10) * 2 ^ i) [0..<k], func (0 + k))"
    by (rule retry_loop_steps) (use assms in auto)
  moreover have "map (\<lambda>i. (1 / 10 :: rat) * 2 ^ i) [0..<k] = take k [1 / 10, 2 / 10, 4 / 10]"
  proof -
    from assms(1) consider "k = 0" | "k = 1" | "k = 2" | "k = 3" by linarith
    then show ?thesis by cases (simp_all add: upt_rec)
  qed
  ultimately show ?thesis by (simp add: retry_on_connection_error_def)
qed

theorem retry_on_connection_error_spec_witness:
  "retry_on_connection_error 3 (1 / 10) 2
     (\<lambda>i. if i < 2 then Inl (SQLAlchemyError ''connection lost'') else Inr (7 :: nat))
     = ([1 / 10, 2 / 10], Inr 7)
   \<and> retry_on_connection_error 3 (1 / 10) 2
       (\<lambda>i. Inl (SQLAlchemyError ''connection lost'') :: exn + nat)
     = ([1 / 10, 2 / 10, 4 / 10], Inl (SQLAlchemyError ''connection lost''))
   \<and> retry_on_connection_error 3 (1 / 10) 2
       (\<lambda>i. if i < 1 then Inl (SQLAlchemyError ''connection lost'')
            else Inl (DatabaseError ''failed'') :: exn + nat)
     = ([1 / 10], Inl (DatabaseError ''failed''))"
  using
    retry_on_connection_error_spec
      [of 2 "\<lambda>i. if i < 2 then Inl (SQLAlchemyError ''connection lost'') else Inr (7 :: nat)"]
    retry_on_connection_error_spec
      [of 3 "\<lambda>i. Inl (SQLAlchemyError ''connection lost'') :: exn + nat"]
    retry_on_connection_error_spec
      [of 1 "\<lambda>i. if i < 1 then Inl (SQLAlchemyError ''connection lost'')
                 else Inl (DatabaseError ''failed'') :: exn + nat"]
  by simp

section \<open>Session ids\<close>

text \<open>The remainders listed by \<open>match_repeat\<close>.\<close>

lemma match_repeat_set:
  "r \<in> set (match_repeat P lo hi s) \<longleftrightarrow>
     (\<exists>k. lo \<le> k \<and> k \<le> hi \<and> k \<le> length s \<and> list_all P (take k s) \<and> r = drop k s)"
proof (induction s arbitrary: lo hi)
  case Nil
  then show ?case by auto
next
  case (Cons c cs)
  show ?case
  proof
    assume "r \<in> set (match_repeat P lo hi (c # cs))"
    then consider (rec) "0 < hi" "P c" "r \<in> set (match_repeat P (lo - 1) (hi - 1) cs)"
      | (stop) "lo = 0" "r = c # cs"
      by (auto split: if_splits)
    then show "\<exists>k. lo \<le> k \<and> k \<le> hi \<and> k \<le> length (c # cs)
                 \<and> list_all P (take k (c # cs)) \<and> r = drop k (c # cs)"
    proof cases
      case rec
      then obtain k where k: "lo - 1 \<le> k" "k \<le> hi - 1" "k \<le> length cs"
          "list_all P (take k cs)" "r = drop k cs"
        using Cons.IH by blast
      show ?thesis
        by (rule exI [of _ "Suc k"]) (use k rec in auto)
    next
      case stop
      show ?thesis by (rule exI [of _ 0]) (use stop in auto)
    qed
  next
    assume "\<exists>k. lo \<le> k \<and> k \<le> hi \<and> k \<le> length (c # cs)
              \<and> list_all P (take k (c # cs)) \<and> r = drop k (c # cs)"
    then obtain k where k: "lo \<le> k" "k \<le> hi" "k \<le> length (c # cs)"
        "list_all P (take k (c # cs))" "r = drop k (c # cs)"
      by blast
    show "r \<in> set (match_repeat P lo hi (c # cs))"
    proof (cases k)
      case 0
      then show ?thesis using k by auto
    next
      case (Suc j)
      then have "lo - 1 \<le> j \<and> j \<le> hi - 1 \<and> j \<le> length cs
                 \<and> list_all P (take j cs) \<and> r = drop j cs"
        using k by auto
      then have "r \<in> set (match_repeat P (lo - 1) (hi - 1) cs)"
        using Cons.IH by blast
      moreover have "0 < hi" "P c" using k Suc by auto
      ultimately show ?thesis by simp
    qed
  qed
qed

text \<open>
  What \<open>validate_session_id\<close> accepts: the strings of the specification, and each of them
  followed by one newline.
\<close>

lemma re_match_SESSION_ID_PATTERN_iff:
  "re_match_SESSION_ID_PATTERN s \<longleftrightarrow>
     spec_session_id_ok s \<or> (\<exists>body. s = body @ newline \<and> spec_session_id_ok body)"
proof
  assume "re_match_SESSION_ID_PATTERN s"
  then obtain r where r: "r \<in> set (match_repeat session_id_char 10 50 s)" "match_dollar r"
    by (auto simp add: re_match_SESSION_ID_PATTERN_def list_ex_iff)
  then obtain k where k: "10 \<le> k" "k \<le> 50" "k \<le> length s"
      "list_all session_id_char (take k s)" "r = drop k s"
    using match_repeat_set by blast
  from r(2) consider "r = []" | "r = newline"
    by (auto simp add: match_dollar_def newline_def)
  then show "spec_session_id_ok s \<or> (\<exists>body. s = body @ newline \<and> spec_session_id_ok body)"
  proof cases
    case 1
    then have "take k s = s" using k by simp
    then show ?thesis using k by (auto simp add: spec_session_id_ok_def)
  next
    case 2
    then have "s = take k s @ newline" using k by (metis append_take_drop_id)
    moreover have "spec_session_id_ok (take k s)"
      using k by (simp add: spec_session_id_ok_def)
    ultimately show ?thesis by blast
  qed
next
  assume "spec_session_id_ok s \<or> (\<exists>body. s = body @ newline \<and> spec_session_id_ok body)"
  then show "re_match_SESSION_ID_PATTERN s"
  proof
    assume "spec_session_id_ok s"
    then have "[] \<in> set (match_repeat session_id_char 10 50 s)"
      unfolding match_repeat_set
      by (intro exI [of _ "length s"]) (simp add: spec_session_id_ok_def)
    then show ?thesis
      by (auto simp add: re_match_SESSION_ID_PATTERN_def list_ex_iff match_dollar_def)
  next
    assume "\<exists>body. s = body @ newline \<and> spec_session_id_ok body"
    then obtain body where b: "s = body @ newline" "spec_session_id_ok body" by blast
    then have "newline \<in> set (match_repeat session_id_char 10 50 s)"
      unfolding match_repeat_set
      by (intro exI [of _ "length body"]) (simp add: spec_session_id_ok_def)
    then show ?thesis
      by (auto simp add: re_match_SESSION_ID_PATTERN_def list_ex_iff match_dollar_def
          newline_def)
  qed
qed

lemma validate_session_id_accepts_iff:
  "validate_session_id s = Inr () \<longleftrightarrow>
     spec_session_id_ok s \<or> (\<exists>body. s = body @ newline \<and> spec_session_id_ok body)"
  using re_match_SESSION_ID_PATTERN_iff [of s] by (simp add: validate_session_id_def)

text \<open>
  C7 (the code departs from the claim): the eleven-character string \<open>abcdefghij\<close> followed
  by a newline is accepted by \<open>validate_session_id\<close>, although its last character is none
  of the allowed ones: \<open>re.match\<close> lets \<open>$\<close> hold before a final newline.
\<close>

theorem validate_session_id_accepts_trailing_newline:
  "validate_session_id (''abcdefghij'' @ newline) = Inr ()
   \<and> \<not> spec_session_id_ok (''abcdefghij'' @ newline)"
  by (simp add: validate_session_id_def re_match_SESSION_ID_PATTERN_def session_id_char_def
      match_dollar_def newline_def spec_session_id_ok_def)

section \<open>Stored-row analytics\<close>

text \<open>The values kept by the truthiness filter are the non-null values other than 0.\<close>

lemma truthy_values_eq:
  "truthy_values f qs = filter (\<lambda>v. v \<noteq> 0) (non_null_values f qs)"
proof (induction qs)
  case Nil
  then show ?case by (simp add: truthy_values_def non_null_values_def)
next
  case (Cons q qs)
  then show ?case
    by (cases "f q") (auto simp add: truthy_values_def non_null_values_def)
qed

lemma truthy_values_none:
  "\<forall>q\<in>set qs. f q = None \<or> f q = Some 0 \<Longrightarrow> truthy_values f qs = []"
  by (induction qs) (auto simp add: truthy_values_def)

lemma rows_since_rows_with_zero: "rows_since 1700000000 7 rows_with_zero = rows_with_zero"
  by (simp add: rows_since_def rows_with_zero_def row_def)

text \<open>
  C8 as stated fails: of two rows in the window with confidence scores 0.0 and 1.0, both
  non-null, \<open>get_analytics\<close> reports the average 1, and the mean of the non-null scores is
  1/2.
\<close>

theorem get_analytics_skips_zero_confidence:
  "dict_get (get_analytics (Inr rows_with_zero) 1700000000 7) ''avg_confidence'' = Some 1
   \<and> mean (non_null_values ChatQuery.confidence_score
             (rows_since 1700000000 7 rows_with_zero)) = 1 / 2
   \<and> dict_get (get_analytics (Inr rows_with_zero) 1700000000 7) ''avg_confidence''
       \<noteq> Some (mean (non_null_values ChatQuery.confidence_score
                       (rows_since 1700000000 7 rows_with_zero)))"
  unfolding rows_since_rows_with_zero
  by (simp add: get_analytics_def dict_get_def rows_since_rows_with_zero Let_def)
     (simp add: rows_with_zero_def row_def truthy_values_def non_null_values_def mean_def)

text \<open>
  C8, amended: for the rows within the window, \<open>get_analytics\<close> returns \<open>query_count\<close>
  equal to their number, \<open>unique_sessions\<close> equal to the number of distinct session ids,
  \<open>avg_confidence\<close> equal to the mean of the confidence scores that are neither null nor
  0, and \<open>avg_response_time_ms\<close> equal to the mean of the query durations that are neither
  null nor 0, each average being 0 when there is no such value.
\<close>

theorem get_analytics_spec:
  "dict_get (get_analytics (Inr table) now days_back) ''query_count''
     = Some (of_nat (length (rows_since now days_back table)))
   \<and> dict_get (get_analytics (Inr table) now days_back) ''unique_sessions''
     = Some (of_nat (card (ChatQuery.session_id ` set (rows_since now days_back table))))
   \<and> dict_get (get_analytics (Inr table) now days_back) ''avg_confidence''
     = Some (mean (filter (\<lambda>v. v \<noteq> 0)
          (non_null_values ChatQuery.confidence_score (rows_since now days_back table))))
   \<and> dict_get (get_analytics (Inr table) now days_back) ''avg_response_time_ms''
     = Some (mean (filter (\<lambda>v. v \<noteq> 0)
          (non_null_values ChatQuery.query_duration_ms (rows_since now days_back table))))"
proof (cases "rows_since now days_back table = []")
  case True
  then show ?thesis
    by (simp add: get_analytics_def dict_get_def mean_def non_null_values_def)
next
  case False
  then show ?thesis
    by (simp add: get_analytics_def dict_get_def Let_def mean_def truthy_values_eq [symmetric])
qed

section \<open>Percentiles\<close>

lemma nearest_rank_index_div: "nearest_rank_index pct n = (pct * n) div 100"
proof -
  have "(of_nat pct / 100 :: rat) * of_nat n = of_nat (pct * n) / of_nat 100"
    by simp
  then have "\<lfloor>(of_nat pct / 100 :: rat) * of_nat n\<rfloor> = int ((pct * n) div 100)"
    by (simp only: floor_divide_of_nat_eq)
  then show ?thesis by (simp add: nearest_rank_index_def)
qed

lemma nearest_rank_index_less: "pct < 100 \<Longrightarrow> 0 < n \<Longrightarrow> nearest_rank_index pct n < n"
  by (simp add: nearest_rank_index_div less_mult_imp_div_less mult.commute)

lemma p50_idx_eq: "nat \<lfloor>(5 / 10 :: rat) * of_nat n\<rfloor> = nearest_rank_index 50 n"
  by (simp add: nearest_rank_index_def)

lemma p95_idx_eq: "nat \<lfloor>(95 / 100 :: rat) * of_nat n\<rfloor> = nearest_rank_index 95 n"
  by (simp add: nearest_rank_index_def)

lemma p99_idx_eq: "nat \<lfloor>(99 / 100 :: rat) * of_nat n\<rfloor> = nearest_rank_index 99 n"
  by (simp add: nearest_rank_index_def)

lemma percentile_idx_eq: "nat \<lfloor>(of_nat (n * p) :: rat) / 100\<rfloor> = nearest_rank_index p n"
  by (simp add: nearest_rank_index_def mult.commute)

lemma sort_one_to_ten:
  "sort [1, 2, 3, 4, 5, 6, 7, 8, 9, 10 :: rat] = [1, 2, 3, 4, 5, 6, 7, 8, 9, 10]"
  by simp

text \<open>
  C9: for a non-empty list of observed values \<open>get_summary_stats\<close> reports as p50, p95 and
  p99 the element of the sorted list at index \<open>floor(percentile/100 \<times> n)\<close>, which is always
  within the list; the helper \<open>percentile\<close> of the analytics service takes the same index,
  limited to the last element.
\<close>

theorem get_summary_stats_percentiles:
  assumes "summaries key = Some values" and "values \<noteq> []"
  shows "get_summary_stats summaries key ''p50''
           = Some (sort values ! nearest_rank_index 50 (length values))
       \<and> get_summary_stats summaries key ''p95''
           = Some (sort values ! nearest_rank_index 95 (length values))
       \<and> get_summary_stats summaries key ''p99''
           = Some (sort values ! nearest_rank_index 99 (length values))
       \<and> nearest_rank_index 50 (length values) < length values
       \<and> nearest_rank_index 95 (length values) < length values
       \<and> nearest_rank_index 99 (length values) < length values
       \<and> percentile values p
           = sort values ! min (nearest_rank_index p (length values)) (length values - 1)"
proof -
  have n: "0 < length values" using assms(2) by simp
  have l: "nearest_rank_index 50 (length values) < length values"
     "nearest_rank_index 95 (length values) < length values"
     "nearest_rank_index 99 (length values) < length values"
    using n by (simp_all add: nearest_rank_index_less)
  have p50: "get_summary_stats summaries key ''p50''
           = Some (sort values ! nearest_rank_index 50 (length values))"
    unfolding get_summary_stats_def Let_def p50_idx_eq using assms l by simp
  have p95: "get_summary_stats summaries key ''p95''
           = Some (sort values ! nearest_rank_index 95 (length values))"
    unfolding get_summary_stats_def Let_def p95_idx_eq using assms l by simp
  have p99: "get_summary_stats summaries key ''p99''
           = Some (sort values ! nearest_rank_index 99 (length values))"
    unfolding get_summary_stats_def Let_def p99_idx_eq using assms l by simp
  have pc: "percentile values p
           = sort values ! min (nearest_rank_index p (length values)) (length values - 1)"
    unfolding percentile_def Let_def percentile_idx_eq using assms by simp
  show ?thesis using p50 p95 p99 pc l by blast
qed

theorem get_summary_stats_percentiles_witness:
  "[''latency__none'' \<mapsto> [1, 2, 3, 4, 5, 6, 7, 8, 9, 10 :: rat]] ''latency__none''
     = Some [1, 2, 3, 4, 5, 6, 7, 8, 9, 10]
   \<and> [1, 2, 3, 4, 5, 6, 7, 8, 9, 10 :: rat] \<noteq> []
   \<and> get_summary_stats [''latency__none'' \<mapsto> [1, 2, 3, 4, 5, 6, 7, 8, 9, 10]]
        ''latency__none'' ''p50'' = Some 6"
proof -
  have a: "[''latency__none'' \<mapsto> [1, 2, 3, 4, 5, 6, 7, 8, 9, 10 :: rat]] ''latency__none''
             = Some [1, 2, 3, 4, 5, 6, 7, 8, 9, 10]"
    by simp
  have b: "[1, 2, 3, 4, 5, 6, 7, 8, 9, 10 :: rat] \<noteq> []" by simp
  have i: "nearest_rank_index 50 10 = 5" by (simp add: nearest_rank_index_div)
  have len: "length [1, 2, 3, 4, 5, 6, 7, 8, 9, 10 :: rat] = 10" by simp
  have v: "[1, 2, 3, 4, 5, 6, 7, 8, 9, 10 :: rat] ! 5 = 6" by simp
  from get_summary_stats_percentiles
         [of "[''latency__none'' \<mapsto> [1, 2, 3, 4, 5, 6, 7, 8, 9, 10 :: rat]]"
             "''latency__none''" "[1, 2, 3, 4, 5, 6, 7, 8, 9, 10 :: rat]" 50] a b
  have "get_summary_stats [''latency__none'' \<mapsto> [1, 2, 3, 4, 5, 6, 7, 8, 9, 10]]
          ''latency__none'' ''p50''
        = Some (sort [1, 2, 3, 4, 5, 6, 7, 8, 9, 10 :: rat]
                  ! nearest_rank_index 50 (length [1, 2, 3, 4, 5, 6, 7, 8, 9, 10 :: rat]))"
    by blast
  then have "get_summary_stats [''latency__none'' \<mapsto> [1, 2, 3, 4, 5, 6, 7, 8, 9, 10]]
               ''latency__none'' ''p50'' = Some 6"
    by (simp only: sort_one_to_ten len i v)
  then show ?thesis using a b by blast
qed

section \<open>Performance metrics\<close>

lemma py_min_Min: "xs \<noteq> [] \<Longrightarrow> py_min xs = Min (set xs)"
  by (cases xs) (simp_all add: Min.set_eq_fold [symmetric])

lemma py_max_Max: "xs \<noteq> [] \<Longrightarrow> py_max xs = Max (set xs)"
  by (cases xs) (simp_all add: Max.set_eq_fold [symmetric])

text \<open>
  C10: when the window holds at least one row, \<open>get_performance_metrics\<close> computes the
  confidence aggregates from the confidence scores that are neither null nor 0 and the
  timing averages from the durations that are neither null nor 0; so, when no row has a
  nonzero confidence score, it reports \<open>max_confidence\<close> 1 with \<open>min_confidence\<close> and
  \<open>avg_confidence\<close> 0.
\<close>

theorem get_performance_metrics_excludes_zero:
  assumes "rows_since now days_back table \<noteq> []"
  shows "dict_get (get_performance_metrics (Inr table) now days_back) ''avg_confidence''
           = Some (mean (filter (\<lambda>v. v \<noteq> 0)
                (non_null_values ChatQuery.confidence_score (rows_since now days_back table))))
       \<and> dict_get (get_performance_metrics (Inr table) now days_back) ''min_confidence''
           = Some (let cs = filter (\<lambda>v. v \<noteq> 0)
                       (non_null_values ChatQuery.confidence_score
                          (rows_since now days_back table))
                   in if cs = [] then 0 else Min (set cs))
       \<and> dict_get (get_performance_metrics (Inr table) now days_back) ''max_confidence''
           = Some (let cs = filter (\<lambda>v. v \<noteq> 0)
                       (non_null_values ChatQuery.confidence_score
                          (rows_since now days_back table))
                   in if cs = [] then 1 else Max (set cs))
       \<and> dict_get (get_performance_metrics (Inr table) now days_back) ''avg_response_time_ms''
           = Some (mean (filter (\<lambda>v. v \<noteq> 0)
                (non_null_values ChatQuery.query_duration_ms (rows_since now days_back table))))
       \<and> dict_get (get_performance_metrics (Inr table) now days_back) ''avg_retrieval_time_ms''
           = Some (mean (filter (\<lambda>v. v \<noteq> 0)
                (non_null_values ChatQuery.retrieval_duration_ms
                   (rows_since now days_back table))))
       \<and> dict_get (get_performance_metrics (Inr table) now days_back) ''avg_generation_time_ms''
           = Some (mean (filter (\<lambda>v. v \<noteq> 0)
                (non_null_values ChatQuery.generation_duration_ms
                   (rows_since now days_back table))))
       \<and> ((\<forall>q \<in> set (rows_since now days_back table).
              ChatQuery.confidence_score q = None \<or> ChatQuery.confidence_score q = Some 0) \<longrightarrow>
            dict_get (get_performance_metrics (Inr table) now days_back) ''max_confidence''
              = Some 1
          \<and> dict_get (get_performance_metrics (Inr table) now days_back) ''min_confidence''
              = Some 0
          \<and> dict_get (get_performance_metrics (Inr table) now days_back) ''avg_confidence''
              = Some 0)"
  using assms
  by (auto simp add: get_performance_metrics_def dict_get_def Let_def mean_def
      truthy_values_eq [symmetric] truthy_values_none py_min_Min py_max_Max)

theorem get_performance_metrics_excludes_zero_witness:
  "rows_since 1700000000 7 rows_no_confidence \<noteq> []
   \<and> map ChatQuery.confidence_score (rows_since 1700000000 7 rows_no_confidence)
       = [Some 0, None]
   \<and> dict_get (get_performance_metrics (Inr rows_no_confidence) 1700000000 7)
        ''max_confidence'' = Some 1
   \<and> dict_get (get_performance_metrics (Inr rows_no_confidence) 1700000000 7)
        ''min_confidence'' = Some 0
   \<and> dict_get (get_performance_metrics (Inr rows_no_confidence) 1700000000 7)
        ''avg_confidence'' = Some 0
   \<and> dict_get (get_performance_metrics (Inr rows_no_confidence) 1700000000 7)
        ''query_count'' = Some 2"
proof -
  have r: "rows_since 1700000000 7 rows_no_confidence = rows_no_confidence"
    by (simp add: rows_since_def rows_no_confidence_def row_def)
  have a: "rows_since 1700000000 7 rows_no_confidence \<noteq> []"
    unfolding r by (simp add: rows_no_confidence_def)
  have b: "\<forall>q \<in> set (rows_since 1700000000 7 rows_no_confidence).
              ChatQuery.confidence_score q = None \<or> ChatQuery.confidence_score q = Some 0"
    unfolding r by (simp add: rows_no_confidence_def row_def)
  have c: "dict_get (get_performance_metrics (Inr rows_no_confidence) 1700000000 7)
             ''query_count'' = Some 2"
    using a by (simp add: get_performance_metrics_def dict_get_def Let_def r)
               (simp add: rows_no_confidence_def)
  have d: "map ChatQuery.confidence_score (rows_since 1700000000 7 rows_no_confidence)
             = [Some 0, None]"
    unfolding r by (simp add: rows_no_confidence_def row_def)
  show ?thesis
    using get_performance_metrics_excludes_zero [OF a] a b c d by blast
qed

end
